theory Spec2Isabelle
  imports Complex_Main "HOL-Library.Sublist" "HOL-Library.Word"
begin

section \<open>Values and records of the menu service\<close>

text \<open>
  The server is one Express application over a single Cassandra table
  \<^verbatim>\<open>menu_items\<close>. Request data are JavaScript values: a JSON body field or a
  query parameter is absent (\<open>Undefined\<close>), \<open>null\<close>, a boolean, a number, a
  string, or an array/object (\<open>Object\<close>, always truthy). Numbers are kept exact;
  the handlers only test them for truthiness and hand them to \<open>parseFloat\<close>.
\<close>

datatype js_val = Undefined | Null | Bool bool | Num rat | Str string | Object

text \<open>JavaScript truthiness, as used by \<^verbatim>\<open>!name\<close>, \<^verbatim>\<open>req.query.q ? ... : ...\<close>.\<close>

fun truthy :: "js_val \<Rightarrow> bool" where
  "truthy Undefined = False"
| "truthy Null = False"
| "truthy (Bool b) = b"
| "truthy (Num x) = (x \<noteq> 0)"
| "truthy (Str s) = (s \<noteq> [])"
| "truthy Object = True"

text \<open>The value of \<^verbatim>\<open>parseFloat(price)\<close>: a finite number or \<^verbatim>\<open>NaN\<close>.\<close>

datatype number = NaN | Finite rat

type_synonym uuid = "128 word"
type_synonym timestamp = int
type_synonym fault = string

text \<open>
  A row of \<^verbatim>\<open>menu_items\<close> as the driver returns it: \<open>id\<close> is the primary key,
  every other column may be \<^verbatim>\<open>null\<close> (\<open>None\<close>).
\<close>

record row =
  id :: uuid
  name :: "string option"
  description :: "string option"
  category :: "string option"
  price :: "number option"
  is_vegetarian :: "bool option"
  created_at :: "timestamp option"
  updated_at :: "timestamp option"

text \<open>
  The CQL statements the server sends, with their bound parameters in the order of
  the source: four provisioning statements of \<^verbatim>\<open>connectToDatabase\<close> and the
  five statements of the route handlers. \<open>Insert\<close> binds all eight columns
  (\<^verbatim>\<open>id, name, description, category, price, is_vegetarian, created_at, updated_at\<close>);
  \<open>Update\<close> is
  \<^verbatim>\<open>SET name = ?, description = ?, category = ?, price = ?, is_vegetarian = ?, updated_at = ? WHERE id = ?\<close>:
  six assigned columns, then the key.
\<close>

datatype stmt =
    CreateKeyspace
  | UseKeyspace
  | CreateTable
  | SelectLimit1
  | SelectAll
  | SelectById uuid
  | Insert uuid js_val js_val js_val number bool timestamp timestamp
  | Update js_val js_val js_val number bool timestamp uuid
  | Delete uuid

text \<open>
  What the process awaits: \<^verbatim>\<open>client.connect()\<close>, \<^verbatim>\<open>client.execute(...)\<close> and
  \<^verbatim>\<open>sleep(ms)\<close>. Every await is logged as an event together with the two
  connection flags as any other task sees them while the await is pending.
\<close>

datatype op = Connect | Execute stmt | Sleep nat

record event =
  awaited :: op
  succeeded :: bool
  seen_isDbConnected :: bool
  seen_dbInitialized :: bool

text \<open>
  The process state: the two global flags of the source, the state of the storage
  cluster behind the driver (\<open>db\<close>, of any type), and the log of awaits.
\<close>

record 'db world =
  isDbConnected :: bool
  dbInitialized :: bool
  db :: "'db"
  trace :: "event list"

text \<open>
  The collaborators that are not code of the server are parameters: the driver's
  \<^verbatim>\<open>client.connect\<close> and \<^verbatim>\<open>client.execute\<close> (each may reject with a fault and may
  change the cluster), \<^verbatim>\<open>Uuid.fromString\<close> (\<open>None\<close> when it throws) and
  \<^verbatim>\<open>parseFloat\<close>. The result of \<open>execute\<close> is \<^verbatim>\<open>result.rows\<close>, which is
  \<^verbatim>\<open>undefined\<close> (\<open>None\<close>) for statements that return no rows.
\<close>

record 'db env =
  connect :: "'db \<Rightarrow> (fault + unit) \<times> 'db"
  execute :: "stmt \<Rightarrow> 'db \<Rightarrow> (fault + row list option) \<times> 'db"
  fromString :: "string \<Rightarrow> uuid option"
  parseFloat :: "js_val \<Rightarrow> number"

text \<open>
  A request: the \<^verbatim>\<open>:id\<close> path parameter, the five body fields, the query
  parameter \<^verbatim>\<open>q\<close>, and the values \<^verbatim>\<open>new Date()\<close> and \<^verbatim>\<open>Uuid.random()\<close> yield
  while the request is handled.
\<close>

record request =
  params_id :: string
  body_name :: js_val
  body_description :: js_val
  body_category :: js_val
  body_price :: js_val
  body_is_vegetarian :: js_val
  query_q :: js_val
  now :: timestamp
  uuid_random :: uuid

text \<open>
  Responses: \<^verbatim>\<open>res.status(s).json(body)\<close> (status 200 when none is set) and
  \<^verbatim>\<open>res.redirect(path)\<close>.
\<close>

datatype payload =
    Items "row list"
  | Item row
  | Error string
  | ErrorDetails string fault
  | Message string
  | Created uuid string

datatype response = Json nat payload | Redirect string

fun status :: "response \<Rightarrow> nat" where
  "status (Json s b) = s"
| "status (Redirect p) = 302"

section \<open>Strings\<close>

text \<open>
  \<^verbatim>\<open>String.prototype.toLowerCase\<close> on ASCII text (other characters are left as
  they are) and \<^verbatim>\<open>String.prototype.includes\<close> (contiguous substring). The general
  theorems below use of \<open>toLowerCase\<close> only that it maps the empty string, and no
  other, to the empty string.
\<close>

definition toLowerCase_char :: "char \<Rightarrow> char" where
  "toLowerCase_char c =
     (let n = (of_char c :: nat) in if 65 \<le> n \<and> n \<le> 90 then char_of (n + 32) else c)"

definition toLowerCase :: "string \<Rightarrow> string" where
  "toLowerCase s = map toLowerCase_char s"

definition str_includes :: "string \<Rightarrow> string \<Rightarrow> bool" where
  "str_includes s t = sublist t s"

section \<open>The readiness gate and the route handlers\<close>

text \<open>
  One \<^verbatim>\<open>await\<close>: the awaited operation runs against the cluster, and the await is
  logged with its outcome and the flags visible while it was pending. A sleep never
  rejects and leaves the cluster alone.
\<close>

fun perform :: "'db env \<Rightarrow> op \<Rightarrow> 'db \<Rightarrow> (fault + row list option) \<times> 'db" where
  "perform e Connect d =
     (case connect e d of (Inl err, d') \<Rightarrow> (Inl err, d') | (Inr u, d') \<Rightarrow> (Inr None, d'))"
| "perform e (Execute s) d = execute e s d"
| "perform e (Sleep ms) d = (Inr None, d)"

definition await :: "'db env \<Rightarrow> op \<Rightarrow> 'db world \<Rightarrow> (fault + row list option) \<times> 'db world" where
  "await e a w =
     (case perform e a (db w) of
        (out, d') \<Rightarrow>
          (out, w\<lparr>db := d',
                  trace := trace w @
                    [\<lparr>awaited = a, succeeded = (\<not> isl out),
                      seen_isDbConnected = isDbConnected w,
                      seen_dbInitialized = dbInitialized w\<rparr>]\<rparr>))"

definition client_execute ::
  "'db env \<Rightarrow> stmt \<Rightarrow> 'db world \<Rightarrow> (fault + row list option) \<times> 'db world" where
  "client_execute e s w = await e (Execute s) w"

text \<open>\<^verbatim>\<open>checkDbConnection\<close>: \<open>Some\<close> the 503 response, or \<open>None\<close> for \<^verbatim>\<open>next()\<close>.\<close>

definition checkDbConnection :: "'db world \<Rightarrow> response option" where
  "checkDbConnection w =
     (if \<not> isDbConnected w \<or> \<not> dbInitialized w
      then Some (Json 503 (Error
        ''Database connection not established yet. Please try again in a few moments.''))
      else None)"

text \<open>\<^verbatim>\<open>result.rows && Array.isArray(result.rows) ? result.rows : []\<close>\<close>

definition rows_or_empty :: "row list option \<Rightarrow> row list" where
  "rows_or_empty r = (case r of Some rs \<Rightarrow> rs | None \<Rightarrow> [])"

text \<open>\<^verbatim>\<open>GET /api/menu-items\<close>\<close>

definition get_menu_items :: "'db env \<Rightarrow> request \<Rightarrow> 'db world \<Rightarrow> response \<times> 'db world" where
  "get_menu_items e req w =
     (case client_execute e SelectAll w of
        (Inl err, w') \<Rightarrow> (Json 500 (ErrorDetails ''Failed to fetch menu items'' err), w')
      | (Inr result, w') \<Rightarrow> (Json 200 (Items (rows_or_empty result)), w'))"

text \<open>\<^verbatim>\<open>GET /api/menu-items/:id\<close>\<close>

definition get_menu_item :: "'db env \<Rightarrow> request \<Rightarrow> 'db world \<Rightarrow> response \<times> 'db world" where
  "get_menu_item e req w =
     (case fromString e (params_id req) of
        None \<Rightarrow> (Json 400 (Error ''Invalid ID format''), w)
      | Some uuid \<Rightarrow>
          (case client_execute e (SelectById uuid) w of
             (Inl err, w') \<Rightarrow> (Json 500 (ErrorDetails ''Failed to fetch menu item'' err), w')
           | (Inr result, w') \<Rightarrow>
               (case result of
                  None \<Rightarrow> (Json 404 (Error ''Menu item not found''), w')
                | Some [] \<Rightarrow> (Json 404 (Error ''Menu item not found''), w')
                | Some (r # rs) \<Rightarrow> (Json 200 (Item r), w'))))"

text \<open>\<^verbatim>\<open>!name || !description || !category || price === undefined\<close>\<close>

definition missing_required :: "request \<Rightarrow> bool" where
  "missing_required req \<longleftrightarrow>
     \<not> truthy (body_name req) \<or> \<not> truthy (body_description req) \<or>
     \<not> truthy (body_category req) \<or> body_price req = Undefined"

text \<open>\<^verbatim>\<open>is_vegetarian === 'true' || is_vegetarian === true\<close>\<close>

definition isVegetarian :: "request \<Rightarrow> bool" where
  "isVegetarian req \<longleftrightarrow>
     body_is_vegetarian req = Str ''true'' \<or> body_is_vegetarian req = Bool True"

text \<open>\<^verbatim>\<open>POST /api/menu-items\<close>\<close>

definition post_menu_item :: "'db env \<Rightarrow> request \<Rightarrow> 'db world \<Rightarrow> response \<times> 'db world" where
  "post_menu_item e req w =
     (if missing_required req then (Json 400 (Error ''Missing required fields''), w)
      else
        (case client_execute e
                (Insert (uuid_random req) (body_name req) (body_description req)
                   (body_category req) (parseFloat e (body_price req)) (isVegetarian req)
                   (now req) (now req)) w of
           (Inl err, w') \<Rightarrow> (Json 500 (ErrorDetails ''Failed to create menu item'' err), w')
         | (Inr result, w') \<Rightarrow>
             (Json 201 (Created (uuid_random req) ''Menu item created successfully''), w')))"

text \<open>\<^verbatim>\<open>PUT /api/menu-items/:id\<close>\<close>

definition put_menu_item :: "'db env \<Rightarrow> request \<Rightarrow> 'db world \<Rightarrow> response \<times> 'db world" where
  "put_menu_item e req w =
     (case fromString e (params_id req) of
        None \<Rightarrow> (Json 400 (Error ''Invalid ID format''), w)
      | Some uuid \<Rightarrow>
          if missing_required req then (Json 400 (Error ''Missing required fields''), w)
          else
            (case client_execute e
                    (Update (body_name req) (body_description req) (body_category req)
                       (parseFloat e (body_price req)) (isVegetarian req) (now req) uuid) w of
               (Inl err, w') \<Rightarrow>
                 (Json 500 (ErrorDetails ''Failed to update menu item'' err), w')
             | (Inr result, w') \<Rightarrow> (Json 200 (Message ''Menu item updated successfully''), w')))"

text \<open>\<^verbatim>\<open>DELETE /api/menu-items/:id\<close>\<close>

definition delete_menu_item :: "'db env \<Rightarrow> request \<Rightarrow> 'db world \<Rightarrow> response \<times> 'db world" where
  "delete_menu_item e req w =
     (case fromString e (params_id req) of
        None \<Rightarrow> (Json 400 (Error ''Invalid ID format''), w)
      | Some uuid \<Rightarrow>
          (case client_execute e (Delete uuid) w of
             (Inl err, w') \<Rightarrow> (Json 500 (ErrorDetails ''Failed to delete menu item'' err), w')
           | (Inr result, w') \<Rightarrow> (Json 200 (Message ''Menu item deleted successfully''), w')))"

text \<open>
  \<^verbatim>\<open>req.query.q ? req.query.q.toLowerCase() : ''\<close>: a falsy \<^verbatim>\<open>q\<close> gives the empty
  term; a truthy value that is not a string has no \<^verbatim>\<open>toLowerCase\<close>, and the
  TypeError is caught by the handler's \<^verbatim>\<open>catch\<close>.
\<close>

definition searchTerm :: "js_val \<Rightarrow> fault + string" where
  "searchTerm q =
     (if truthy q
      then (case q of Str s \<Rightarrow> Inr (toLowerCase s)
                    | _ \<Rightarrow> Inl ''req.query.q.toLowerCase is not a function'')
      else Inr [])"

text \<open>\<^verbatim>\<open>item.f && item.f.toLowerCase().includes(searchTerm)\<close> for one column.\<close>

definition field_matches :: "string option \<Rightarrow> string \<Rightarrow> bool" where
  "field_matches f t =
     (case f of None \<Rightarrow> False | Some s \<Rightarrow> s \<noteq> [] \<and> str_includes (toLowerCase s) t)"

definition item_matches :: "string \<Rightarrow> row \<Rightarrow> bool" where
  "item_matches t item \<longleftrightarrow>
     field_matches (name item) t \<or> field_matches (description item) t \<or>
     field_matches (category item) t"

text \<open>\<^verbatim>\<open>GET /api/search\<close>\<close>

definition get_search :: "'db env \<Rightarrow> request \<Rightarrow> 'db world \<Rightarrow> response \<times> 'db world" where
  "get_search e req w =
     (case searchTerm (query_q req) of
        Inl err \<Rightarrow> (Json 500 (ErrorDetails ''Failed to search menu items'' err), w)
      | Inr t \<Rightarrow>
          if t = [] then (Redirect ''/api/menu-items'', w)
          else
            (case client_execute e SelectAll w of
               (Inl err, w') \<Rightarrow>
                 (Json 500 (ErrorDetails ''Failed to search menu items'' err), w')
             | (Inr result, w') \<Rightarrow>
                 (Json 200 (Items (filter (item_matches t) (rows_or_empty result))), w')))"

text \<open>
  The six data routes. Each is registered as
  \<^verbatim>\<open>app.METHOD(path, checkDbConnection, handler)\<close>: the gate runs first and the
  handler only after \<^verbatim>\<open>next()\<close>.
\<close>

datatype route =
  GetMenuItems | GetMenuItem | PostMenuItem | PutMenuItem | DeleteMenuItem | GetSearch

fun handler :: "route \<Rightarrow> 'db env \<Rightarrow> request \<Rightarrow> 'db world \<Rightarrow> response \<times> 'db world" where
  "handler GetMenuItems = get_menu_items"
| "handler GetMenuItem = get_menu_item"
| "handler PostMenuItem = post_menu_item"
| "handler PutMenuItem = put_menu_item"
| "handler DeleteMenuItem = delete_menu_item"
| "handler GetSearch = get_search"

definition serve :: "route \<Rightarrow> 'db env \<Rightarrow> request \<Rightarrow> 'db world \<Rightarrow> response \<times> 'db world" where
  "serve r e req w =
     (case checkDbConnection w of
        Some resp \<Rightarrow> (resp, w)
      | None \<Rightarrow> handler r e req w)"

text \<open>
  A client that follows the redirect of \<^verbatim>\<open>GET /api/search\<close> issues a new
  \<^verbatim>\<open>GET\<close> for the given path; \<^verbatim>\<open>/api/menu-items\<close> is the listing route.
\<close>

definition follow_redirect ::
  "'db env \<Rightarrow> request \<Rightarrow> response \<times> 'db world \<Rightarrow> response \<times> 'db world" where
  "follow_redirect e req rw =
     (case fst rw of
        Redirect p \<Rightarrow> if p = ''/api/menu-items'' then serve GetMenuItems e req (snd rw) else rw
      | Json s b \<Rightarrow> rw)"

section \<open>Connecting and provisioning\<close>

text \<open>
  The process starts with both flags \<^verbatim>\<open>false\<close> and calls \<^verbatim>\<open>connectToDatabase()\<close>
  once. Its \<^verbatim>\<open>try\<close> block awaits five operations in order; the first rejection
  jumps to the \<^verbatim>\<open>catch\<close> block.
\<close>

definition boot :: "'db \<Rightarrow> 'db world" where
  "boot d = \<lparr>isDbConnected = False, dbInitialized = False, db = d, trace = []\<rparr>"

definition provisioning :: "op list" where
  "provisioning =
     [Connect, Execute CreateKeyspace, Execute UseKeyspace, Execute CreateTable,
      Execute SelectLimit1]"

fun await_each :: "'db env \<Rightarrow> op list \<Rightarrow> 'db world \<Rightarrow> fault option \<times> 'db world" where
  "await_each e [] w = (None, w)"
| "await_each e (a # as) w =
     (case await e a w of
        (Inl err, w') \<Rightarrow> (Some err, w')
      | (Inr res, w') \<Rightarrow> await_each e as w')"

text \<open>\<^verbatim>\<open>await sleep(ms)\<close>\<close>

definition sleep :: "'db env \<Rightarrow> nat \<Rightarrow> 'db world \<Rightarrow> 'db world" where
  "sleep e ms w = snd (await e (Sleep ms) w)"

text \<open>
  \<^verbatim>\<open>connectToDatabase\<close>. The recursion of the \<^verbatim>\<open>catch\<close> block has no bound in the
  source, so the model counts attempts down from a given number: the result is
  \<open>None\<close> when that many attempts have all failed and the function is still
  retrying, \<open>Some (Inr b)\<close> when it has returned \<open>b\<close>, and \<open>Some (Inl err)\<close> when its
  promise has rejected with \<open>err\<close>. Both flags are assigned in one synchronous
  stretch (no \<^verbatim>\<open>await\<close> between the two assignments), in the \<^verbatim>\<open>try\<close> block as in
  the \<^verbatim>\<open>catch\<close> block.
\<close>

fun connectToDatabase ::
  "nat \<Rightarrow> 'db env \<Rightarrow> 'db world \<Rightarrow> (fault + bool) option \<times> 'db world" where
  "connectToDatabase 0 e w = (None, w)"
| "connectToDatabase (Suc n) e w =
     (case await_each e provisioning w of
        (None, w') \<Rightarrow> (Some (Inr True), w'\<lparr>isDbConnected := True, dbInitialized := True\<rparr>)
      | (Some err, w') \<Rightarrow>
          connectToDatabase n e
            (sleep e 5000 (w'\<lparr>isDbConnected := False, dbInitialized := False\<rparr>)))"

section \<open>A reference cluster\<close>

text \<open>
  The handlers above work with any driver. Where a property depends on what the
  statements do to the table, it is stated for this reference cluster, which follows
  the CQL semantics of a table with the single primary key \<open>id\<close>:
  \<^verbatim>\<open>INSERT\<close> and \<^verbatim>\<open>UPDATE\<close> both write the named columns of the row with the given
  key and create that row when it is absent (an upsert), \<^verbatim>\<open>DELETE\<close> removes the row
  with the key if there is one, and the schema statements are idempotent. The
  cluster refuses the first \<open>refusals\<close> connection attempts. A text column takes a
  string, or no value (\<^verbatim>\<open>null\<close>, \<^verbatim>\<open>undefined\<close>; the handlers never send these,
  since validation rejects falsy fields); the prepared statement rejects any other
  value with a TypeError.
\<close>

record cluster =
  refusals :: nat
  table :: "row list"

definition text_column :: "js_val \<Rightarrow> string option option" where
  "text_column v =
     (case v of Str s \<Rightarrow> Some (Some s) | Null \<Rightarrow> Some None | Undefined \<Rightarrow> Some None
              | _ \<Rightarrow> None)"

definition empty_row :: "uuid \<Rightarrow> row" where
  "empty_row k =
     \<lparr>id = k, name = None, description = None, category = None, price = None,
      is_vegetarian = None, created_at = None, updated_at = None\<rparr>"

fun upsert :: "uuid \<Rightarrow> (row \<Rightarrow> row) \<Rightarrow> row list \<Rightarrow> row list" where
  "upsert k f [] = [f (empty_row k)]"
| "upsert k f (r # rs) = (if id r = k then f r # rs else r # upsert k f rs)"

definition cql_connect :: "cluster \<Rightarrow> (fault + unit) \<times> cluster" where
  "cql_connect c =
     (if 0 < refusals c then (Inl ''NoHostAvailableError'', c\<lparr>refusals := refusals c - 1\<rparr>)
      else (Inr (), c))"

fun cql_execute :: "stmt \<Rightarrow> cluster \<Rightarrow> (fault + row list option) \<times> cluster" where
  "cql_execute CreateKeyspace c = (Inr None, c)"
| "cql_execute UseKeyspace c = (Inr None, c)"
| "cql_execute CreateTable c = (Inr None, c)"
| "cql_execute SelectLimit1 c = (Inr (Some (take 1 (table c))), c)"
| "cql_execute SelectAll c = (Inr (Some (table c)), c)"
| "cql_execute (SelectById k) c = (Inr (Some (filter (\<lambda>r. id r = k) (table c))), c)"
| "cql_execute (Insert k n d g p v ca ua) c =
     (case (text_column n, text_column d, text_column g) of
        (Some n', Some d', Some g') \<Rightarrow>
          (Inr None,
           c\<lparr>table := upsert k
                 (\<lambda>r. r\<lparr>name := n', description := d', category := g', price := Some p,
                        is_vegetarian := Some v, created_at := Some ca,
                        updated_at := Some ua\<rparr>) (table c)\<rparr>)
      | _ \<Rightarrow> (Inl ''TypeError: Not a valid text value'', c))"
| "cql_execute (Update n d g p v ua k) c =
     (case (text_column n, text_column d, text_column g) of
        (Some n', Some d', Some g') \<Rightarrow>
          (Inr None,
           c\<lparr>table := upsert k
                 (\<lambda>r. r\<lparr>name := n', description := d', category := g', price := Some p,
                        is_vegetarian := Some v, updated_at := Some ua\<rparr>) (table c)\<rparr>)
      | _ \<Rightarrow> (Inl ''TypeError: Not a valid text value'', c))"
| "cql_execute (Delete k) c = (Inr None, c\<lparr>table := filter (\<lambda>r. id r \<noteq> k) (table c)\<rparr>)"

definition cql :: "(string \<Rightarrow> uuid option) \<Rightarrow> (js_val \<Rightarrow> number) \<Rightarrow> cluster env" where
  "cql parse pf =
     \<lparr>connect = cql_connect, execute = cql_execute, fromString = parse, parseFloat = pf\<rparr>"

section \<open>The search rule as the specification words it\<close>

text \<open>
  The specification's matching rule, kept apart from \<open>item_matches\<close> (which is the
  source's filter): a column matches when it holds a string whose lower-cased form
  contains the lower-cased term; a \<^verbatim>\<open>null\<close> column never matches.
\<close>

definition contains_ci :: "string option \<Rightarrow> string \<Rightarrow> bool" where
  "contains_ci f t =
     (case f of None \<Rightarrow> False | Some s \<Rightarrow> sublist (toLowerCase t) (toLowerCase s))"

definition spec_matches :: "string \<Rightarrow> row \<Rightarrow> bool" where
  "spec_matches t r \<longleftrightarrow>
     contains_ci (name r) t \<or> contains_ci (description r) t \<or> contains_ci (category r) t"

section \<open>Example data\<close>

text \<open>
  One instance of the parameters, used to evaluate the handlers on concrete requests:
  an identifier parser that accepts two identifiers, a \<open>parseFloat\<close> that is right
  on numbers, the reference cluster, two rows (the second with \<^verbatim>\<open>null\<close> columns),
  and requests.
\<close>

definition example_fromString :: "string \<Rightarrow> uuid option" where
  "example_fromString s =
     (if s = ''00000000-0000-0000-0000-000000000001'' then Some 1
      else if s = ''00000000-0000-0000-0000-000000000007'' then Some 7
      else None)"

definition example_parseFloat :: "js_val \<Rightarrow> number" where
  "example_parseFloat v = (case v of Num x \<Rightarrow> Finite x | _ \<Rightarrow> NaN)"

definition example_env :: "cluster env" where
  "example_env = cql example_fromString example_parseFloat"

definition soup :: row where
  "soup = \<lparr>id = 1, name = Some ''Soup'', description = Some ''Tomato soup'',
           category = Some ''Starter'', price = Some (Finite (9 / 2)),
           is_vegetarian = Some True, created_at = Some 1000, updated_at = Some 1000\<rparr>"

definition cake :: row where
  "cake = \<lparr>id = 2, name = None, description = None,
           category = Some ''Dessert'', price = None,
           is_vegetarian = None, created_at = None, updated_at = None\<rparr>"

definition menu :: cluster where
  "menu = \<lparr>refusals = 0, table = [soup, cake]\<rparr>"

definition unreachable :: "nat \<Rightarrow> cluster" where
  "unreachable n = \<lparr>refusals = n, table = []\<rparr>"

definition ready :: "'db \<Rightarrow> 'db world" where
  "ready d = \<lparr>isDbConnected = True, dbInitialized = True, db = d, trace = []\<rparr>"

definition example_request :: request where
  "example_request =
     \<lparr>params_id = [], body_name = Undefined, body_description = Undefined,
      body_category = Undefined, body_price = Undefined, body_is_vegetarian = Undefined,
      query_q = Undefined, now = 2000, uuid_random = 9\<rparr>"

definition stew_request :: request where
  "stew_request =
     example_request\<lparr>params_id := ''00000000-0000-0000-0000-000000000007'',
       body_name := Str ''Stew'', body_description := Str ''Beef stew'',
       body_category := Str ''Main'', body_price := Num 12\<rparr>"

definition soup_request :: request where
  "soup_request =
     example_request\<lparr>params_id := ''00000000-0000-0000-0000-000000000001'',
       body_name := Str ''Soup'', body_description := Str ''Tomato and basil'',
       body_category := Str ''Starter'', body_price := Num 5,
       body_is_vegetarian := Bool True\<rparr>"

section \<open>Search\<close>

lemma toLowerCase_Nil [simp]: "toLowerCase [] = []"
  by (simp add: toLowerCase_def)

lemma toLowerCase_Nil_iff [simp]: "toLowerCase s = [] \<longleftrightarrow> s = []"
  by (simp add: toLowerCase_def)

lemma field_matches_spec: "t \<noteq> [] \<Longrightarrow> field_matches f (toLowerCase t) = contains_ci f t"
  by (auto simp: field_matches_def contains_ci_def str_includes_def split: option.splits)

lemma item_matches_spec: "t \<noteq> [] \<Longrightarrow> item_matches (toLowerCase t) = spec_matches t"
  by (rule ext) (simp add: item_matches_def spec_matches_def field_matches_spec)

lemma searchTerm_Str: "t \<noteq> [] \<Longrightarrow> searchTerm (Str t) = Inr (toLowerCase t)"
  by (simp add: searchTerm_def)

lemma get_search_fetched:
  assumes "t \<noteq> []" "query_q req = Str t" "execute e SelectAll (db w) = (Inr result, d)"
  shows "fst (get_search e req w) =
    Json 200 (Items (filter (item_matches (toLowerCase t)) (rows_or_empty result)))"
  using assms by (simp add: get_search_def searchTerm_Str client_execute_def await_def)

lemma ready_simps [simp]:
  "isDbConnected (ready d)" "dbInitialized (ready d)" "db (ready d) = d" "trace (ready d) = []"
  by (simp_all add: ready_def)

lemma boot_simps [simp]:
  "\<not> isDbConnected (boot d)" "\<not> dbInitialized (boot d)" "db (boot d) = d" "trace (boot d) = []"
  by (simp_all add: boot_def)

lemma menu_select_all:
  "execute example_env SelectAll menu = (Inr (Some [soup, cake]), menu)"
  by (simp add: example_env_def cql_def menu_def)

lemma tom_matches_soup: "filter (spec_matches ''TOM'') [soup, cake] = [soup]"
  by code_simp

text \<open>
  C2. For a non-empty term \<open>t\<close> and whatever rows the fetch returned, the search
  handler answers 200 with exactly the fetched rows whose lower-cased name,
  description or category contains the lower-cased \<open>t\<close>, in the wording of the
  specification (\<open>spec_matches\<close>). A \<^verbatim>\<open>null\<close> column matches nothing and raises
  nothing: the answer is the filtered list for every row list, so also for rows with
  \<^verbatim>\<open>null\<close> columns.
\<close>

theorem search_returns_exactly_matching:
  assumes "t \<noteq> []" "query_q req = Str t" "execute e SelectAll (db w) = (Inr result, d)"
  shows "fst (get_search e req w) =
    Json 200 (Items (filter (spec_matches t) (rows_or_empty result)))"
  using assms by (simp add: get_search_fetched item_matches_spec)

theorem search_returns_exactly_matching_witness:
  "fst (get_search example_env (example_request\<lparr>query_q := Str ''TOM''\<rparr>) (ready menu)) =
     Json 200 (Items [soup])"
proof -
  have "fst (get_search example_env (example_request\<lparr>query_q := Str ''TOM''\<rparr>) (ready menu)) =
     Json 200 (Items (filter (spec_matches ''TOM'') (rows_or_empty (Some [soup, cake]))))"
    by (rule search_returns_exactly_matching [where d = menu]) (simp_all add: menu_select_all)
  then show ?thesis
    by (simp only: rows_or_empty_def option.case tom_matches_soup)
qed

text \<open>
  C9. For a non-empty term the rows in the answer are the matching rows as a
  subsequence of the rows the fetch returned: the handler filters and never sorts, so
  the answer keeps the storage order.
\<close>

theorem search_preserves_storage_order:
  assumes "t \<noteq> []" "query_q req = Str t" "execute e SelectAll (db w) = (Inr result, d)"
  shows "\<exists>items. fst (get_search e req w) = Json 200 (Items items) \<and>
           items = filter (item_matches (toLowerCase t)) (rows_or_empty result) \<and>
           subseq items (rows_or_empty result)"
  using assms by (simp add: get_search_fetched)

theorem search_preserves_storage_order_witness:
  "\<exists>items. fst (get_search example_env (example_request\<lparr>query_q := Str ''e''\<rparr>) (ready menu)) =
     Json 200 (Items items) \<and> subseq items [soup, cake]"
  using search_preserves_storage_order
          [of "''e''" "example_request\<lparr>query_q := Str ''e''\<rparr>" example_env "ready menu"
              "Some [soup, cake]" menu]
  by (simp add: menu_select_all rows_or_empty_def)

text \<open>
  C1 (as the code has it). A search whose term is absent or the empty string makes no
  storage call of its own and answers with a redirect to the listing route
  \<^verbatim>\<open>/api/menu-items\<close>; a client that follows the redirect gets exactly what the plain
  listing gives, which is all fetched rows in storage order when the service is ready
  and the fetch succeeds. A term of blanks is not an empty term for the server (the
  term is never trimmed): it is searched for as it stands.
\<close>

theorem search_empty_term_is_listing:
  "query_q req = Undefined \<or> query_q req = Str [] \<longrightarrow>
     get_search e req w = (Redirect ''/api/menu-items'', w) \<and>
     follow_redirect e req (serve GetSearch e req w) = serve GetMenuItems e req w \<and>
     (isDbConnected w \<and> dbInitialized w \<and> execute e SelectAll (db w) = (Inr result, d) \<longrightarrow>
        fst (follow_redirect e req (serve GetSearch e req w)) =
          Json 200 (Items (rows_or_empty result)))"
  by (auto simp: get_search_def searchTerm_def follow_redirect_def serve_def
       checkDbConnection_def get_menu_items_def client_execute_def await_def)

theorem search_empty_term_is_listing_witness:
  "get_search example_env example_request (ready menu) =
     (Redirect ''/api/menu-items'', ready menu) \<and>
   fst (follow_redirect example_env example_request
          (serve GetSearch example_env example_request (ready menu))) =
     Json 200 (Items [soup, cake])"
proof -
  have q: "query_q example_request = Undefined \<or> query_q example_request = Str []"
    by (simp add: example_request_def)
  have x: "isDbConnected (ready menu) \<and> dbInitialized (ready menu) \<and>
     execute example_env SelectAll (db (ready menu)) = (Inr (Some [soup, cake]), menu)"
    by (simp add: menu_select_all)
  have r: "rows_or_empty (Some [soup, cake]) = [soup, cake]"
    by (simp add: rows_or_empty_def)
  show ?thesis
    using search_empty_term_is_listing
            [of example_request example_env "ready menu" "Some [soup, cake]" menu] q x
    unfolding r by blast
qed

text \<open>
  C1 as the specification words it fails on a term of three blanks: with the rows
  \<open>soup\<close> and \<open>cake\<close> stored, the search answers with no rows while the listing
  answers with both.
\<close>

theorem search_whitespace_counterexample:
  "fst (serve GetSearch example_env (example_request\<lparr>query_q := Str ''   ''\<rparr>) (ready menu)) =
     Json 200 (Items []) \<and>
   fst (serve GetMenuItems example_env (example_request\<lparr>query_q := Str ''   ''\<rparr>) (ready menu)) =
     Json 200 (Items [soup, cake])"
  by code_simp

section \<open>The readiness gate\<close>

lemma serve_ready:
  "isDbConnected w \<Longrightarrow> dbInitialized w \<Longrightarrow> serve r e req w = handler r e req w"
  by (simp add: serve_def checkDbConnection_def)

text \<open>
  C3. The gate lets a request through (\<^verbatim>\<open>next()\<close>) only when both flags are true.
  While either flag is false, every request to any of the six data routes is answered
  503 with the "not established yet" message, and the process state comes back as it
  was: the cluster is untouched and the log of awaits has no new entry, so no storage
  operation took place.
\<close>

theorem gate_rejects_until_ready:
  "(checkDbConnection w = None \<longleftrightarrow> isDbConnected w \<and> dbInitialized w) \<and>
   (\<not> (isDbConnected w \<and> dbInitialized w) \<longrightarrow>
      serve r e req w = (Json 503 (Error
        ''Database connection not established yet. Please try again in a few moments.''), w))"
  by (auto simp: checkDbConnection_def serve_def)

theorem gate_rejects_until_ready_witness:
  "checkDbConnection (boot menu) \<noteq> None \<and>
   serve PostMenuItem example_env stew_request (boot menu) =
     (Json 503 (Error
        ''Database connection not established yet. Please try again in a few moments.''),
      boot menu) \<and>
   checkDbConnection (ready menu) = None"
  using gate_rejects_until_ready [of "boot menu" PostMenuItem example_env stew_request]
    gate_rejects_until_ready [of "ready menu"]
  by simp

section \<open>Validation\<close>

text \<open>
  C8. A handler that takes an identifier (get by id, update, delete) answers 400
  "Invalid ID format" when the identifier does not parse, and the create and update
  handlers answer 400 when name, description, category or price is missing from the
  body ("Missing required fields"; for an update whose identifier is malformed as
  well, the identifier is reported first). In each case the handler returns the
  process state it was given: nothing was awaited, so no storage call was made and
  the stored rows are unchanged. The handlers are what a request reaches once the
  gate of C3 has let it through.
\<close>

theorem invalid_requests_rejected_before_storage:
  "(r \<in> {GetMenuItem, PutMenuItem, DeleteMenuItem} \<and> fromString e (params_id req) = None \<longrightarrow>
      handler r e req w = (Json 400 (Error ''Invalid ID format''), w)) \<and>
   (body_name req = Undefined \<or> body_description req = Undefined \<or>
    body_category req = Undefined \<or> body_price req = Undefined \<longrightarrow>
      handler PostMenuItem e req w = (Json 400 (Error ''Missing required fields''), w) \<and>
      status (fst (handler PutMenuItem e req w)) = 400 \<and>
      snd (handler PutMenuItem e req w) = w \<and>
      (fromString e (params_id req) \<noteq> None \<longrightarrow>
         handler PutMenuItem e req w = (Json 400 (Error ''Missing required fields''), w))) \<and>
   (isDbConnected w \<and> dbInitialized w \<longrightarrow> serve r e req w = handler r e req w)"
  by (auto simp: get_menu_item_def put_menu_item_def delete_menu_item_def post_menu_item_def
       missing_required_def serve_ready split: option.splits)

theorem invalid_requests_rejected_before_storage_witness:
  "serve DeleteMenuItem example_env (example_request\<lparr>params_id := ''not-a-uuid''\<rparr>)
     (ready menu) = (Json 400 (Error ''Invalid ID format''), ready menu) \<and>
   serve PostMenuItem example_env (stew_request\<lparr>body_price := Undefined\<rparr>) (ready menu) =
     (Json 400 (Error ''Missing required fields''), ready menu) \<and>
   serve PutMenuItem example_env (stew_request\<lparr>body_name := Undefined\<rparr>) (ready menu) =
     (Json 400 (Error ''Missing required fields''), ready menu)"
  using invalid_requests_rejected_before_storage
      [of DeleteMenuItem example_env "example_request\<lparr>params_id := ''not-a-uuid''\<rparr>"
          "ready menu"]
    invalid_requests_rejected_before_storage
      [of PostMenuItem example_env "stew_request\<lparr>body_price := Undefined\<rparr>" "ready menu"]
    invalid_requests_rejected_before_storage
      [of PutMenuItem example_env "stew_request\<lparr>body_name := Undefined\<rparr>" "ready menu"]
  by (simp add: example_env_def cql_def example_fromString_def example_request_def
       stew_request_def)

section \<open>Update and delete\<close>

lemma status_put: "status (fst (put_menu_item e req w)) \<noteq> 404"
  by (simp add: put_menu_item_def split: option.splits prod.splits sum.splits)

lemma status_delete: "status (fst (delete_menu_item e req w)) \<noteq> 404"
  by (simp add: delete_menu_item_def split: option.splits prod.splits sum.splits)

text \<open>
  C6 (as the code has it). The update handler never answers 404. For a well-formed
  identifier and a body that passes validation it awaits exactly one statement, the
  \<^verbatim>\<open>UPDATE\<close> with that identifier, without reading the table first, and answers 200
  "Menu item updated successfully" when the statement completes and 500 when it
  fails, whether or not a row with the identifier exists.
\<close>

theorem update_never_reports_not_found:
  "status (fst (put_menu_item e req w)) \<noteq> 404 \<and>
   (fromString e (params_id req) = Some k \<and> \<not> missing_required req \<longrightarrow>
      map awaited (trace (snd (put_menu_item e req w))) =
        map awaited (trace w) @
          [Execute (Update (body_name req) (body_description req) (body_category req)
                      (parseFloat e (body_price req)) (isVegetarian req) (now req) k)] \<and>
      (\<forall>res d. execute e (Update (body_name req) (body_description req) (body_category req)
                      (parseFloat e (body_price req)) (isVegetarian req) (now req) k) (db w) =
                  (Inr res, d) \<longrightarrow>
         fst (put_menu_item e req w) = Json 200 (Message ''Menu item updated successfully'')) \<and>
      (\<forall>err d. execute e (Update (body_name req) (body_description req) (body_category req)
                      (parseFloat e (body_price req)) (isVegetarian req) (now req) k) (db w) =
                  (Inl err, d) \<longrightarrow>
         fst (put_menu_item e req w) =
           Json 500 (ErrorDetails ''Failed to update menu item'' err)))"
  using status_put [of e req w]
  by (auto simp: put_menu_item_def client_execute_def await_def split: prod.splits sum.splits)

lemma stew_request_valid:
  "fromString example_env (params_id stew_request) = Some 7 \<and> \<not> missing_required stew_request"
  by (simp add: example_env_def cql_def example_fromString_def stew_request_def
      example_request_def missing_required_def)

theorem update_never_reports_not_found_witness:
  "fst (put_menu_item example_env stew_request (ready menu)) =
     Json 200 (Message ''Menu item updated successfully'') \<and>
   map awaited (trace (snd (put_menu_item example_env stew_request (ready menu)))) =
     [Execute (Update (Str ''Stew'') (Str ''Beef stew'') (Str ''Main'') (Finite 12) False 2000 7)]"
proof -
  have x: "execute example_env
             (Update (body_name stew_request) (body_description stew_request)
                (body_category stew_request) (parseFloat example_env (body_price stew_request))
                (isVegetarian stew_request) (now stew_request) 7) (db (ready menu)) =
           (Inr None, menu\<lparr>table := [soup, cake,
              (empty_row 7)\<lparr>name := Some ''Stew'', description := Some ''Beef stew'',
                 category := Some ''Main'', price := Some (Finite 12),
                 is_vegetarian := Some False, updated_at := Some 2000\<rparr>]\<rparr>)"
    by code_simp
  have u: "Update (body_name stew_request) (body_description stew_request)
                (body_category stew_request) (parseFloat example_env (body_price stew_request))
                (isVegetarian stew_request) (now stew_request) 7 =
           Update (Str ''Stew'') (Str ''Beef stew'') (Str ''Main'') (Finite 12) False 2000 7"
    by code_simp
  show ?thesis
    using update_never_reports_not_found [of example_env stew_request "ready menu" 7]
      stew_request_valid x
    unfolding u by auto
qed

text \<open>
  C6 as the specification words it fails on the example table: no row has the
  identifier 7, and an update of 7 is answered 200, not 404.
\<close>

theorem update_missing_row_counterexample:
  "fst (execute example_env (SelectById 7) (db (ready menu))) = Inr (Some []) \<and>
   fst (serve PutMenuItem example_env stew_request (ready menu)) =
     Json 200 (Message ''Menu item updated successfully'') \<and>
   status (fst (serve PutMenuItem example_env stew_request (ready menu))) \<noteq> 404"
  by code_simp

lemma upsert_map:
  "k \<in> id ` set rs \<Longrightarrow> (\<And>r. g (f r) = g r) \<Longrightarrow> map g (upsert k f rs) = map g rs"
  by (induction rs) auto

lemma upsert_others:
  "k \<in> id ` set rs \<Longrightarrow> (\<And>r. id (f r) = id r) \<Longrightarrow>
     filter (\<lambda>x. id x \<noteq> k) (upsert k f rs) = filter (\<lambda>x. id x \<noteq> k) rs"
  by (induction rs) auto

lemma filter_absent: "k \<notin> id ` set rs \<Longrightarrow> filter (\<lambda>x. id x = k) rs = []"
  by (induction rs) auto

lemma upsert_target:
  "distinct (map id rs) \<Longrightarrow> r \<in> set rs \<Longrightarrow> (\<And>r. id (f r) = id r) \<Longrightarrow>
     filter (\<lambda>x. id x = id r) (upsert (id r) f rs) = [f r]"
proof (induction rs)
  case Nil
  then show ?case by simp
next
  case (Cons a rs)
  show ?case
  proof (cases "id a = id r")
    case True
    with Cons.prems have "a = r" by (auto simp: image_iff)
    moreover from Cons.prems True have "id r \<notin> id ` set rs" by auto
    ultimately show ?thesis using Cons.prems(3) by (simp add: filter_absent)
  next
    case False
    with Cons show ?thesis by auto
  qed
qed

lemma put_accepted:
  assumes "parse (params_id req) = Some k" "\<not> missing_required req"
    "body_name req = Str n" "body_description req = Str d" "body_category req = Str g"
  shows "put_menu_item (cql parse pf) req w =
     (Json 200 (Message ''Menu item updated successfully''),
      w\<lparr>db := (db w)\<lparr>table := upsert k
                (\<lambda>r. r\<lparr>name := Some n, description := Some d, category := Some g,
                       price := Some (pf (body_price req)),
                       is_vegetarian := Some (isVegetarian req),
                       updated_at := Some (now req)\<rparr>) (table (db w))\<rparr>,
        trace := trace w @
          [\<lparr>awaited = Execute (Update (Str n) (Str d) (Str g) (pf (body_price req))
                               (isVegetarian req) (now req) k),
            succeeded = True, seen_isDbConnected = isDbConnected w,
            seen_dbInitialized = dbInitialized w\<rparr>]\<rparr>)"
  using assms
  by (simp add: put_menu_item_def cql_def client_execute_def await_def text_column_def)

lemma put_table_cases:
  assumes "parse (params_id req) = Some k"
  shows "table (db (snd (put_menu_item (cql parse pf) req w))) = table (db w) \<or>
     (\<exists>n d g. table (db (snd (put_menu_item (cql parse pf) req w))) =
        upsert k (\<lambda>r. r\<lparr>name := n, description := d, category := g,
                       price := Some (pf (body_price req)),
                       is_vegetarian := Some (isVegetarian req),
                       updated_at := Some (now req)\<rparr>) (table (db w)))"
  using assms
  by (auto simp: put_menu_item_def cql_def client_execute_def await_def
      split: option.splits)

text \<open>
  C7 (as the code has it). On the reference cluster, an update of the identifier of a
  stored row \<open>r\<close> with a body that passes validation leaves the identifiers and the
  \<open>created_at\<close> values of all rows, and every row with another identifier, as they
  were. When name, description and category are strings the statement is accepted,
  the answer is 200, and the row with the identifier becomes \<open>r\<close> with exactly the
  six columns name, description, category, price, is_vegetarian and updated_at
  written (the one statement sent is the \<^verbatim>\<open>UPDATE\<close> with these six values and the
  key). The value written to \<open>updated_at\<close> is the handler's reading of the clock,
  \<^verbatim>\<open>new Date()\<close>, whatever the stored value was: the handler never compares the
  two.
\<close>

theorem update_writes_six_columns:
  assumes "parse (params_id req) = Some (id r)" "\<not> missing_required req"
    "r \<in> set (table (db w))" "distinct (map id (table (db w)))"
  shows
    "map id (table (db (snd (put_menu_item (cql parse pf) req w)))) = map id (table (db w)) \<and>
     map created_at (table (db (snd (put_menu_item (cql parse pf) req w)))) =
       map created_at (table (db w)) \<and>
     filter (\<lambda>x. id x \<noteq> id r) (table (db (snd (put_menu_item (cql parse pf) req w)))) =
       filter (\<lambda>x. id x \<noteq> id r) (table (db w)) \<and>
     (body_name req = Str n \<and> body_description req = Str d \<and> body_category req = Str g \<longrightarrow>
        fst (put_menu_item (cql parse pf) req w) =
          Json 200 (Message ''Menu item updated successfully'') \<and>
        map awaited (trace (snd (put_menu_item (cql parse pf) req w))) =
          map awaited (trace w) @
            [Execute (Update (Str n) (Str d) (Str g) (pf (body_price req))
                        (isVegetarian req) (now req) (id r))] \<and>
        filter (\<lambda>x. id x = id r) (table (db (snd (put_menu_item (cql parse pf) req w)))) =
          [r\<lparr>name := Some n, description := Some d, category := Some g,
             price := Some (pf (body_price req)),
             is_vegetarian := Some (isVegetarian req),
             updated_at := Some (now req)\<rparr>])"
proof -
  let ?T = "table (db w)"
  let ?T' = "table (db (snd (put_menu_item (cql parse pf) req w)))"
  have k: "id r \<in> id ` set ?T" using assms(3) by blast
  have frame: "map id ?T' = map id ?T \<and> map created_at ?T' = map created_at ?T \<and>
     filter (\<lambda>x. id x \<noteq> id r) ?T' = filter (\<lambda>x. id x \<noteq> id r) ?T"
    using put_table_cases [of parse req "id r" pf w, OF assms(1)]
    by (auto simp: upsert_map [OF k] upsert_others [OF k])
  have written: "fst (put_menu_item (cql parse pf) req w) =
          Json 200 (Message ''Menu item updated successfully'') \<and>
        map awaited (trace (snd (put_menu_item (cql parse pf) req w))) =
          map awaited (trace w) @
            [Execute (Update (Str n) (Str d) (Str g) (pf (body_price req))
                        (isVegetarian req) (now req) (id r))] \<and>
        filter (\<lambda>x. id x = id r) ?T' =
          [r\<lparr>name := Some n, description := Some d, category := Some g,
             price := Some (pf (body_price req)),
             is_vegetarian := Some (isVegetarian req),
             updated_at := Some (now req)\<rparr>]"
    if s: "body_name req = Str n" "body_description req = Str d" "body_category req = Str g"
  proof -
    let ?f = "\<lambda>r. r\<lparr>name := Some n, description := Some d, category := Some g,
                       price := Some (pf (body_price req)),
                       is_vegetarian := Some (isVegetarian req),
                       updated_at := Some (now req)\<rparr>"
    have T': "?T' = upsert (id r) ?f ?T"
      using put_accepted [of parse req "id r" n d g pf w, OF assms(1,2) s] by simp
    have tgt: "filter (\<lambda>x. id x = id r) ?T' = [?f r]"
      unfolding T' using upsert_target [OF assms(4,3), of ?f] by simp
    from put_accepted [of parse req "id r" n d g pf w, OF assms(1,2) s] tgt
    show ?thesis by simp
  qed
  from frame written show ?thesis by blast
qed

theorem update_writes_six_columns_witness:
  "fst (put_menu_item example_env soup_request (ready menu)) =
     Json 200 (Message ''Menu item updated successfully'') \<and>
   map created_at (table (db (snd (put_menu_item example_env soup_request (ready menu))))) =
     [Some 1000, None] \<and>
   filter (\<lambda>x. id x \<noteq> 1) (table (db (snd (put_menu_item example_env soup_request (ready menu))))) =
     [cake] \<and>
   filter (\<lambda>x. id x = 1) (table (db (snd (put_menu_item example_env soup_request (ready menu))))) =
     [soup\<lparr>description := Some ''Tomato and basil'', price := Some (Finite 5),
          updated_at := Some 2000\<rparr>]"
proof -
  have h: "example_fromString (params_id soup_request) = Some (id soup)"
    "\<not> missing_required soup_request" "soup \<in> set (table (db (ready menu)))"
    "distinct (map id (table (db (ready menu))))"
    by (simp_all add: example_fromString_def soup_request_def example_request_def soup_def
        cake_def menu_def missing_required_def)
  have b: "body_name soup_request = Str ''Soup'' \<and>
     body_description soup_request = Str ''Tomato and basil'' \<and>
     body_category soup_request = Str ''Starter''"
    by (simp add: soup_request_def)
  have v: "id soup = 1" "map created_at (table (db (ready menu))) = [Some 1000, None]"
    "filter (\<lambda>x. id x \<noteq> 1) (table (db (ready menu))) = [cake]"
    "soup\<lparr>name := Some ''Soup'', description := Some ''Tomato and basil'',
          category := Some ''Starter'',
          price := Some (example_parseFloat (body_price soup_request)),
          is_vegetarian := Some (isVegetarian soup_request),
          updated_at := Some (now soup_request)\<rparr> =
     soup\<lparr>description := Some ''Tomato and basil'', price := Some (Finite 5),
          updated_at := Some 2000\<rparr>"
    by (simp_all add: soup_def cake_def menu_def soup_request_def example_request_def
        example_parseFloat_def isVegetarian_def)
  from update_writes_six_columns
         [where parse = example_fromString and req = soup_request and r = soup
            and w = "ready menu" and n = "''Soup''" and d = "''Tomato and basil''"
            and g = "''Starter''" and pf = example_parseFloat, OF h] b
  show ?thesis
    unfolding example_env_def v by blast
qed

text \<open>
  C7 as the specification words it (\<open>updated_at\<close> refreshed to a later value) fails
  on the example table, where \<open>soup\<close> was last written at time 1000: an update whose
  clock reading is again 1000 (a second write within the same millisecond) is
  answered 200 and leaves \<open>updated_at\<close> equal to the stored value, and one whose
  clock reading is 500 (the clock was set back) is answered 200 and makes it earlier.
\<close>

theorem update_not_later_counterexample:
  "updated_at soup = Some 1000 \<and>
   fst (serve PutMenuItem example_env (soup_request\<lparr>now := 1000\<rparr>) (ready menu)) =
     Json 200 (Message ''Menu item updated successfully'') \<and>
   map updated_at
     (filter (\<lambda>x. id x = 1)
        (table (db (snd (serve PutMenuItem example_env (soup_request\<lparr>now := 1000\<rparr>)
                           (ready menu)))))) = [Some 1000] \<and>
   fst (serve PutMenuItem example_env (soup_request\<lparr>now := 500\<rparr>) (ready menu)) =
     Json 200 (Message ''Menu item updated successfully'') \<and>
   map updated_at
     (filter (\<lambda>x. id x = 1)
        (table (db (snd (serve PutMenuItem example_env (soup_request\<lparr>now := 500\<rparr>)
                           (ready menu)))))) = [Some 500]"
  by code_simp

text \<open>
  C10. The delete handler never answers 404: for a well-formed identifier it answers
  200 "Menu item deleted successfully" whenever the \<^verbatim>\<open>DELETE\<close> statement completes,
  without looking whether a row exists. On the reference cluster the statement always
  completes, afterwards no row has the identifier, and when no row had it before the
  table is unchanged.
\<close>

theorem delete_succeeds_regardless:
  "status (fst (delete_menu_item e req w)) \<noteq> 404 \<and>
   (fromString e (params_id req) = Some k \<and> execute e (Delete k) (db w) = (Inr res, d) \<longrightarrow>
      fst (delete_menu_item e req w) = Json 200 (Message ''Menu item deleted successfully'')) \<and>
   (parse (params_id req) = Some k \<longrightarrow>
      fst (delete_menu_item (cql parse pf) req v) =
        Json 200 (Message ''Menu item deleted successfully'') \<and>
      (\<forall>x \<in> set (table (db (snd (delete_menu_item (cql parse pf) req v)))). id x \<noteq> k) \<and>
      (k \<notin> id ` set (table (db v)) \<longrightarrow>
         table (db (snd (delete_menu_item (cql parse pf) req v))) = table (db v)))"
proof -
  have "filter (\<lambda>r. id r \<noteq> k) (table (db v)) = table (db v)" if "k \<notin> id ` set (table (db v))"
    using that by (auto simp: filter_id_conv)
  then show ?thesis
    using status_delete [of e req w]
    by (auto simp: delete_menu_item_def client_execute_def await_def cql_def)
qed

theorem delete_succeeds_regardless_witness:
  "fst (delete_menu_item example_env stew_request (ready menu)) =
     Json 200 (Message ''Menu item deleted successfully'') \<and>
   table (db (snd (delete_menu_item example_env stew_request (ready menu)))) = [soup, cake] \<and>
   fst (delete_menu_item example_env soup_request (ready menu)) =
     Json 200 (Message ''Menu item deleted successfully'')"
proof -
  have h: "example_fromString (params_id stew_request) = Some 7"
    "example_fromString (params_id soup_request) = Some 1"
    by (simp_all add: example_fromString_def stew_request_def soup_request_def
        example_request_def)
  have a: "7 \<notin> id ` set (table (db (ready menu)))"
    by (simp add: soup_def cake_def menu_def)
  have t: "table (db (ready menu)) = [soup, cake]"
    by (simp add: menu_def)
  note d7 = delete_succeeds_regardless
         [where parse = example_fromString and pf = example_parseFloat
            and req = stew_request and v = "ready menu" and k = 7
            and e = example_env and w = "ready menu" and res = None and d = menu]
  note d1 = delete_succeeds_regardless
         [where parse = example_fromString and pf = example_parseFloat
            and req = soup_request and v = "ready menu" and k = 1
            and e = example_env and w = "ready menu" and res = None and d = menu]
  from d7 h(1) a have "fst (delete_menu_item (cql example_fromString example_parseFloat)
         stew_request (ready menu)) = Json 200 (Message ''Menu item deleted successfully'') \<and>
     table (db (snd (delete_menu_item (cql example_fromString example_parseFloat)
         stew_request (ready menu)))) = table (db (ready menu))"
    by blast
  moreover from d1 h(2) have "fst (delete_menu_item (cql example_fromString example_parseFloat)
         soup_request (ready menu)) = Json 200 (Message ''Menu item deleted successfully'')"
    by blast
  ultimately show ?thesis
    unfolding example_env_def t by blast
qed

section \<open>Connecting and provisioning: the flags\<close>

lemma await_flags [simp]:
  "isDbConnected (snd (await e a w)) = isDbConnected w"
  "dbInitialized (snd (await e a w)) = dbInitialized w"
  by (simp_all add: await_def split: prod.splits)

lemma await_trace:
  "trace (snd (await e a w)) =
     trace w @ [\<lparr>awaited = a, succeeded = (\<not> isl (fst (perform e a (db w)))),
                 seen_isDbConnected = isDbConnected w, seen_dbInitialized = dbInitialized w\<rparr>]"
  by (simp add: await_def split: prod.splits)

lemma fst_await: "fst (await e a w) = fst (perform e a (db w))"
  by (simp add: await_def split: prod.splits)

lemma sleep_simps [simp]:
  "isDbConnected (sleep e ms w) = isDbConnected w"
  "dbInitialized (sleep e ms w) = dbInitialized w"
  "db (sleep e ms w) = db w"
  "trace (sleep e ms w) =
     trace w @ [\<lparr>awaited = Sleep ms, succeeded = True,
                 seen_isDbConnected = isDbConnected w, seen_dbInitialized = dbInitialized w\<rparr>]"
  by (simp_all add: sleep_def await_def)

lemma provisioning_no_sleep: "a \<in> set provisioning \<Longrightarrow> a \<noteq> Sleep ms"
  by (auto simp: provisioning_def)

text \<open>
  What one run of the \<^verbatim>\<open>try\<close> block appends to the log: every await saw the flags as
  they were at the start, and a run without rejection awaited all the given
  operations in order.
\<close>

lemma await_each_trace:
  "\<exists>evs. trace (snd (await_each e as w)) = trace w @ evs \<and>
     (\<forall>ev \<in> set evs. seen_isDbConnected ev = isDbConnected w \<and>
                        seen_dbInitialized ev = dbInitialized w \<and>
                        awaited ev \<in> set as) \<and>
     (fst (await_each e as w) = None \<longrightarrow>
        map awaited evs = as \<and> (\<forall>ev \<in> set evs. succeeded ev))"
proof (induction as arbitrary: w)
  case Nil
  then show ?case by simp
next
  case (Cons a as)
  obtain out w' where aw: "await e a w = (out, w')" by (cases "await e a w")
  let ?ev = "\<lparr>awaited = a, succeeded = (\<not> isl out),
               seen_isDbConnected = isDbConnected w, seen_dbInitialized = dbInitialized w\<rparr>"
  have tr: "trace w' = trace w @ [?ev]"
    using await_trace [of e a w] fst_await [of e a w] aw by simp
  have fl: "isDbConnected w' = isDbConnected w" "dbInitialized w' = dbInitialized w"
    using await_flags [of e a w] aw by simp_all
  show ?case
  proof (cases out)
    case (Inl err)
    with aw tr show ?thesis by (intro exI [of _ "[?ev]"]) simp
  next
    case (Inr res)
    from Cons.IH [of w'] obtain evs where
      evs: "trace (snd (await_each e as w')) = trace w' @ evs \<and>
        (\<forall>ev \<in> set evs. seen_isDbConnected ev = isDbConnected w' \<and>
                        seen_dbInitialized ev = dbInitialized w' \<and>
                        awaited ev \<in> set as) \<and>
        (fst (await_each e as w') = None \<longrightarrow>
           map awaited evs = as \<and> (\<forall>ev \<in> set evs. succeeded ev))" ..
    with aw tr fl Inr show ?thesis
      by (intro exI [of _ "?ev # evs"]) auto
  qed
qed

lemma connectToDatabase_result:
  "fst (connectToDatabase n e w) = None \<or> fst (connectToDatabase n e w) = Some (Inr True)"
proof (induction n arbitrary: w)
  case 0
  then show ?case by simp
next
  case (Suc n)
  obtain r w1 where a: "await_each e provisioning w = (r, w1)"
    by (cases "await_each e provisioning w")
  show ?case
  proof (cases r)
    case None
    with a show ?thesis by simp
  next
    case (Some err)
    with a Suc.IH show ?thesis by simp
  qed
qed

lemma connectToDatabase_more:
  "fst (connectToDatabase n e w) = None \<Longrightarrow>
     connectToDatabase (n + k) e w = connectToDatabase k e (snd (connectToDatabase n e w))"
proof (induction n arbitrary: w)
  case 0
  then show ?case by simp
next
  case (Suc n)
  obtain r w1 where a: "await_each e provisioning w = (r, w1)"
    by (cases "await_each e provisioning w")
  show ?case
  proof (cases r)
    case None
    with a Suc.prems show ?thesis by simp
  next
    case (Some err)
    with a Suc.prems Suc.IH show ?thesis by simp
  qed
qed

text \<open>
  The whole run, started with both flags false: the log grows by events that all saw
  both flags false and whose sleeps are all 5000 ms; the flags are true at the end
  exactly when the function has returned, and then the log ends with the five
  provisioning operations, all successful; a run still retrying after \<open>n\<close> attempts
  has slept \<open>n\<close> times.
\<close>

lemma connectToDatabase_run:
  assumes "\<not> isDbConnected w" "\<not> dbInitialized w"
  shows "\<exists>evs. trace (snd (connectToDatabase n e w)) = trace w @ evs \<and>
     (\<forall>ev \<in> set evs. \<not> seen_isDbConnected ev \<and> \<not> seen_dbInitialized ev \<and>
                       (\<forall>ms. awaited ev = Sleep ms \<longrightarrow> ms = 5000)) \<and>
     (fst (connectToDatabase n e w) = None \<or> fst (connectToDatabase n e w) = Some (Inr True)) \<and>
     (isDbConnected (snd (connectToDatabase n e w)) \<longleftrightarrow>
        fst (connectToDatabase n e w) = Some (Inr True)) \<and>
     (dbInitialized (snd (connectToDatabase n e w)) \<longleftrightarrow>
        fst (connectToDatabase n e w) = Some (Inr True)) \<and>
     (fst (connectToDatabase n e w) = Some (Inr True) \<longrightarrow>
        (\<exists>pre suc. evs = pre @ suc \<and> map awaited suc = provisioning \<and>
                    (\<forall>ev \<in> set suc. succeeded ev))) \<and>
     (fst (connectToDatabase n e w) = None \<longrightarrow>
        length (filter (\<lambda>ev. awaited ev = Sleep 5000) evs) = n)"
  using assms
proof (induction n arbitrary: w)
  case 0
  then show ?case by simp
next
  case (Suc n)
  obtain r w1 where a: "await_each e provisioning w = (r, w1)"
    by (cases "await_each e provisioning w")
  from await_each_trace [of e provisioning w] obtain evs1 where
    ae: "trace (snd (await_each e provisioning w)) = trace w @ evs1 \<and>
     (\<forall>ev \<in> set evs1. seen_isDbConnected ev = isDbConnected w \<and>
                        seen_dbInitialized ev = dbInitialized w \<and>
                        awaited ev \<in> set provisioning) \<and>
     (fst (await_each e provisioning w) = None \<longrightarrow>
        map awaited evs1 = provisioning \<and> (\<forall>ev \<in> set evs1. succeeded ev))" ..
  from ae a have t1: "trace w1 = trace w @ evs1" by simp
  from ae have s1: "\<forall>ev \<in> set evs1. seen_isDbConnected ev = isDbConnected w \<and>
               seen_dbInitialized ev = dbInitialized w \<and> awaited ev \<in> set provisioning"
    by (rule conjunct2 [THEN conjunct1])
  from ae a have ok1:
    "r = None \<longrightarrow> map awaited evs1 = provisioning \<and> (\<forall>ev \<in> set evs1. succeeded ev)"
    by simp
  have seen1: "\<forall>ev \<in> set evs1. \<not> seen_isDbConnected ev \<and> \<not> seen_dbInitialized ev \<and>
                 (\<forall>ms. awaited ev = Sleep ms \<longrightarrow> ms = 5000)"
    using s1 Suc.prems provisioning_no_sleep by auto
  have nosleep1: "filter (\<lambda>ev. awaited ev = Sleep 5000) evs1 = []"
    using s1 provisioning_no_sleep by (auto simp: filter_empty_conv)
  show ?case
  proof (cases r)
    case None
    with a t1 seen1 ok1 show ?thesis
      by (intro exI [of _ evs1]) (auto intro: exI [of _ "[]"])
  next
    case (Some err)
    let ?w2 = "sleep e 5000 (w1\<lparr>isDbConnected := False, dbInitialized := False\<rparr>)"
    let ?sl = "\<lparr>awaited = Sleep 5000, succeeded = True,
                seen_isDbConnected = False, seen_dbInitialized = False\<rparr>"
    have step: "connectToDatabase (Suc n) e w = connectToDatabase n e ?w2"
      using a Some by simp
    have t2: "trace ?w2 = trace w @ evs1 @ [?sl]"
      using t1 by simp
    have "\<not> isDbConnected ?w2" "\<not> dbInitialized ?w2" by simp_all
    from Suc.IH [OF this] obtain evs2 where
      ih: "trace (snd (connectToDatabase n e ?w2)) = trace ?w2 @ evs2 \<and>
     (\<forall>ev \<in> set evs2. \<not> seen_isDbConnected ev \<and> \<not> seen_dbInitialized ev \<and>
                       (\<forall>ms. awaited ev = Sleep ms \<longrightarrow> ms = 5000)) \<and>
     (fst (connectToDatabase n e ?w2) = None \<or>
      fst (connectToDatabase n e ?w2) = Some (Inr True)) \<and>
     (isDbConnected (snd (connectToDatabase n e ?w2)) \<longleftrightarrow>
        fst (connectToDatabase n e ?w2) = Some (Inr True)) \<and>
     (dbInitialized (snd (connectToDatabase n e ?w2)) \<longleftrightarrow>
        fst (connectToDatabase n e ?w2) = Some (Inr True)) \<and>
     (fst (connectToDatabase n e ?w2) = Some (Inr True) \<longrightarrow>
        (\<exists>pre suc. evs2 = pre @ suc \<and> map awaited suc = provisioning \<and>
                    (\<forall>ev \<in> set suc. succeeded ev))) \<and>
     (fst (connectToDatabase n e ?w2) = None \<longrightarrow>
        length (filter (\<lambda>ev. awaited ev = Sleep 5000) evs2) = n)" ..
    from ih have e2: "trace (snd (connectToDatabase n e ?w2)) = trace ?w2 @ evs2"
      by (rule conjunct1)
    from ih have seen2: "\<forall>ev \<in> set evs2. \<not> seen_isDbConnected ev \<and> \<not> seen_dbInitialized ev \<and>
                 (\<forall>ms. awaited ev = Sleep ms \<longrightarrow> ms = 5000)"
      by (rule conjunct2 [THEN conjunct1])
    from ih have res2: "fst (connectToDatabase n e ?w2) = None \<or>
                 fst (connectToDatabase n e ?w2) = Some (Inr True)"
      by (rule conjunct2 [THEN conjunct2, THEN conjunct1])
    from ih have fl2: "isDbConnected (snd (connectToDatabase n e ?w2)) \<longleftrightarrow>
                  fst (connectToDatabase n e ?w2) = Some (Inr True)"
      by (rule conjunct2 [THEN conjunct2, THEN conjunct2, THEN conjunct1])
    from ih have fl2': "dbInitialized (snd (connectToDatabase n e ?w2)) \<longleftrightarrow>
                  fst (connectToDatabase n e ?w2) = Some (Inr True)"
      by (rule conjunct2 [THEN conjunct2, THEN conjunct2, THEN conjunct2, THEN conjunct1])
    from ih have ok2: "fst (connectToDatabase n e ?w2) = Some (Inr True) \<longrightarrow>
                  (\<exists>pre suc. evs2 = pre @ suc \<and> map awaited suc = provisioning \<and>
                     (\<forall>ev \<in> set suc. succeeded ev))"
      by (rule conjunct2 [THEN conjunct2, THEN conjunct2, THEN conjunct2, THEN conjunct2,
            THEN conjunct1])
    from ih have cnt2: "fst (connectToDatabase n e ?w2) = None \<longrightarrow>
                  length (filter (\<lambda>ev. awaited ev = Sleep 5000) evs2) = n"
      by (rule conjunct2 [THEN conjunct2, THEN conjunct2, THEN conjunct2, THEN conjunct2,
            THEN conjunct2])
    have ok: "fst (connectToDatabase n e ?w2) = Some (Inr True) \<longrightarrow>
                (\<exists>pre suc. evs1 @ [?sl] @ evs2 = pre @ suc \<and> map awaited suc = provisioning \<and>
                     (\<forall>ev \<in> set suc. succeeded ev))"
    proof
      assume "fst (connectToDatabase n e ?w2) = Some (Inr True)"
      with ok2 obtain pre suc where "evs2 = pre @ suc" "map awaited suc = provisioning"
        "\<forall>ev \<in> set suc. succeeded ev" by blast
      then show "\<exists>pre suc. evs1 @ [?sl] @ evs2 = pre @ suc \<and> map awaited suc = provisioning \<and>
                     (\<forall>ev \<in> set suc. succeeded ev)"
        by (intro exI [of _ "evs1 @ [?sl] @ pre"] exI [of _ suc]) simp
    qed
    show ?thesis
      unfolding step
      using e2 t2 seen1 seen2 res2 fl2 fl2' ok cnt2 nosleep1
      by (intro exI [of _ "evs1 @ [?sl] @ evs2"]) (simp add: ball_Un)
  qed
qed

lemma handler_flags:
  "isDbConnected (snd (handler r e req w)) = isDbConnected w \<and>
   dbInitialized (snd (handler r e req w)) = dbInitialized w"
  by (cases r)
    (auto simp: get_menu_items_def get_menu_item_def post_menu_item_def put_menu_item_def
       delete_menu_item_def get_search_def client_execute_def await_def
       split: prod.splits sum.splits option.splits list.splits)

lemma serve_flags:
  "isDbConnected (snd (serve r e req w)) = isDbConnected w \<and>
   dbInitialized (snd (serve r e req w)) = dbInitialized w"
  using handler_flags [of r e req w] by (simp add: serve_def split: option.splits)

text \<open>The example cluster: a refused attempt and an accepted one.\<close>

lemma retry_refused:
  "0 < refusals (db w) \<Longrightarrow>
     connectToDatabase (Suc n) example_env w =
       connectToDatabase n example_env
         (w\<lparr>isDbConnected := False, dbInitialized := False,
            db := (db w)\<lparr>refusals := refusals (db w) - 1\<rparr>,
            trace := trace w @
              [\<lparr>awaited = Connect, succeeded = False,
                seen_isDbConnected = isDbConnected w,
                seen_dbInitialized = dbInitialized w\<rparr>,
               \<lparr>awaited = Sleep 5000, succeeded = True,
                seen_isDbConnected = False, seen_dbInitialized = False\<rparr>]\<rparr>)"
  by (cases w)
    (simp add: provisioning_def await_def sleep_def example_env_def cql_def cql_connect_def)

lemma retry_accepted:
  "refusals (db w) = 0 \<Longrightarrow>
     fst (connectToDatabase (Suc n) example_env w) = Some (Inr True) \<and>
     map awaited (trace (snd (connectToDatabase (Suc n) example_env w))) =
       map awaited (trace w) @ provisioning"
  by (simp add: provisioning_def await_def example_env_def cql_def cql_connect_def)

text \<open>
  C4. The process starts with both flags false. While \<^verbatim>\<open>connectToDatabase\<close> runs,
  every await (the points at which other tasks can look at the flags) sees both flags
  false; when it stops the two flags are equal, and they are true exactly when it has
  returned, in which case the log ends with the five provisioning operations, in
  order and all successful. If the first \<open>n\<close> attempts fail and the next one
  succeeds, the function returns with both flags true. Serving a request never
  changes either flag, so after a failure both flags are false and no state with
  exactly one flag true is ever visible.
\<close>

theorem flags_change_together:
  "\<not> isDbConnected (boot d) \<and> \<not> dbInitialized (boot d) \<and>
   (\<forall>ev \<in> set (trace (snd (connectToDatabase n e (boot d)))).
      \<not> seen_isDbConnected ev \<and> \<not> seen_dbInitialized ev) \<and>
   isDbConnected (snd (connectToDatabase n e (boot d))) =
     dbInitialized (snd (connectToDatabase n e (boot d))) \<and>
   (isDbConnected (snd (connectToDatabase n e (boot d))) \<longleftrightarrow>
      fst (connectToDatabase n e (boot d)) = Some (Inr True)) \<and>
   (fst (connectToDatabase n e (boot d)) = Some (Inr True) \<longrightarrow>
      (\<exists>pre suc. trace (snd (connectToDatabase n e (boot d))) = pre @ suc \<and>
         map awaited suc = provisioning \<and> (\<forall>ev \<in> set suc. succeeded ev))) \<and>
   (fst (connectToDatabase n e (boot d)) = None \<and>
    fst (await_each e provisioning (snd (connectToDatabase n e (boot d)))) = None \<longrightarrow>
      fst (connectToDatabase (Suc n) e (boot d)) = Some (Inr True) \<and>
      isDbConnected (snd (connectToDatabase (Suc n) e (boot d))) \<and>
      dbInitialized (snd (connectToDatabase (Suc n) e (boot d)))) \<and>
   isDbConnected (snd (serve r e req w)) = isDbConnected w \<and>
   dbInitialized (snd (serve r e req w)) = dbInitialized w"
proof -
  have conv: "fst (connectToDatabase (Suc n) e (boot d)) = Some (Inr True) \<and>
      isDbConnected (snd (connectToDatabase (Suc n) e (boot d))) \<and>
      dbInitialized (snd (connectToDatabase (Suc n) e (boot d)))"
    if f: "fst (connectToDatabase n e (boot d)) = None"
      and ok: "fst (await_each e provisioning (snd (connectToDatabase n e (boot d)))) = None"
  proof -
    have "connectToDatabase (n + 1) e (boot d) =
            connectToDatabase 1 e (snd (connectToDatabase n e (boot d)))"
      by (rule connectToDatabase_more [OF f])
    with ok show ?thesis
      by (simp split: prod.splits)
  qed
  from connectToDatabase_run [of "boot d" n e] serve_flags [of r e req w] conv
  show ?thesis by auto
qed

lemma one_refusal:
  "fst (connectToDatabase 2 example_env (boot (unreachable 1))) = Some (Inr True) \<and>
   map awaited (trace (snd (connectToDatabase 2 example_env (boot (unreachable 1))))) =
     [Connect, Sleep 5000, Connect, Execute CreateKeyspace, Execute UseKeyspace,
      Execute CreateTable, Execute SelectLimit1]"
  by (simp add: numeral_2_eq_2 boot_def unreachable_def retry_refused retry_accepted
      provisioning_def del: connectToDatabase.simps(2))

theorem flags_change_together_witness:
  "isDbConnected (snd (connectToDatabase 2 example_env (boot (unreachable 1)))) \<and>
   dbInitialized (snd (connectToDatabase 2 example_env (boot (unreachable 1)))) \<and>
   map awaited (trace (snd (connectToDatabase 2 example_env (boot (unreachable 1))))) =
     [Connect, Sleep 5000, Connect, Execute CreateKeyspace, Execute UseKeyspace,
      Execute CreateTable, Execute SelectLimit1]"
  using flags_change_together [of "unreachable 1" 2 example_env] one_refusal
  by blast

text \<open>
  C5. When an operation of the sequence fails, the function sets both flags to false,
  sleeps 5000 ms and calls itself, which starts again at the first operation. It stops
  only by returning \<^verbatim>\<open>true\<close>: its promise never rejects, so no failure reaches a
  caller or ends the process. Every sleep it logs is of 5000 ms, \<open>n\<close> failed attempts
  are followed by \<open>n\<close> such sleeps, and after any number of failed attempts it goes
  on as if started afresh from the state reached: there is no bound on the attempts
  and no growth of the delay. (The delay is the argument of the sleep; the model has
  no clock.)
\<close>

theorem provisioning_failure_retries:
  "(await_each e provisioning w = (Some err, w1) \<longrightarrow>
      connectToDatabase (Suc n) e w =
        connectToDatabase n e
          (w1\<lparr>isDbConnected := False, dbInitialized := False,
              trace := trace w1 @
                [\<lparr>awaited = Sleep 5000, succeeded = True,
                  seen_isDbConnected = False, seen_dbInitialized = False\<rparr>]\<rparr>)) \<and>
   (fst (connectToDatabase n e w) = None \<or> fst (connectToDatabase n e w) = Some (Inr True)) \<and>
   (\<forall>ev \<in> set (trace (snd (connectToDatabase n e (boot d)))).
      \<forall>ms. awaited ev = Sleep ms \<longrightarrow> ms = 5000) \<and>
   (fst (connectToDatabase n e (boot d)) = None \<longrightarrow>
      length (filter (\<lambda>ev. awaited ev = Sleep 5000)
                (trace (snd (connectToDatabase n e (boot d))))) = n) \<and>
   (fst (connectToDatabase n e w) = None \<longrightarrow>
      (\<forall>k. connectToDatabase (n + k) e w =
             connectToDatabase k e (snd (connectToDatabase n e w))))"
proof -
  have 1: "await_each e provisioning w = (Some err, w1) \<longrightarrow>
      connectToDatabase (Suc n) e w =
        connectToDatabase n e
          (w1\<lparr>isDbConnected := False, dbInitialized := False,
              trace := trace w1 @
                [\<lparr>awaited = Sleep 5000, succeeded = True,
                  seen_isDbConnected = False, seen_dbInitialized = False\<rparr>]\<rparr>)"
    by (simp add: sleep_def await_def)
  from connectToDatabase_run [of "boot d" n e]
  have 3: "(\<forall>ev \<in> set (trace (snd (connectToDatabase n e (boot d)))).
      \<forall>ms. awaited ev = Sleep ms \<longrightarrow> ms = 5000) \<and>
   (fst (connectToDatabase n e (boot d)) = None \<longrightarrow>
      length (filter (\<lambda>ev. awaited ev = Sleep 5000)
                (trace (snd (connectToDatabase n e (boot d))))) = n)"
    by auto
  from 1 3 connectToDatabase_result [of n e w] connectToDatabase_more [of n e w]
  show ?thesis by blast
qed

lemma two_refusals:
  "fst (connectToDatabase 2 example_env (boot (unreachable 2))) = None \<and>
   map awaited (trace (snd (connectToDatabase 2 example_env (boot (unreachable 2))))) =
     [Connect, Sleep 5000, Connect, Sleep 5000] \<and>
   fst (connectToDatabase 1 example_env
          (snd (connectToDatabase 2 example_env (boot (unreachable 2))))) = Some (Inr True)"
  by (simp add: numeral_2_eq_2 boot_def unreachable_def retry_refused retry_accepted
      provisioning_def del: connectToDatabase.simps(2))

theorem provisioning_failure_retries_witness:
  "fst (connectToDatabase 2 example_env (boot (unreachable 2))) = None \<and>
   length (filter (\<lambda>ev. awaited ev = Sleep 5000)
             (trace (snd (connectToDatabase 2 example_env (boot (unreachable 2)))))) = 2 \<and>
   fst (connectToDatabase (2 + 1) example_env (boot (unreachable 2))) = Some (Inr True)"
proof -
  from provisioning_failure_retries
         [where e = example_env and w = "boot (unreachable 2)" and d = "unreachable 2" and n = 2]
       two_refusals
  have "length (filter (\<lambda>ev. awaited ev = Sleep 5000)
             (trace (snd (connectToDatabase 2 example_env (boot (unreachable 2)))))) = 2"
    and "connectToDatabase (2 + 1) example_env (boot (unreachable 2)) =
         connectToDatabase 1 example_env
           (snd (connectToDatabase 2 example_env (boot (unreachable 2))))"
    by blast+
  with two_refusals show ?thesis by simp
qed

end
